theory Spec2Isabelle
  imports Main "HOL-Library.Sublist"
begin

section \<open>Python values, exceptions and external calls\<close>

text \<open>
  The repository is four AWS Lambda handlers written in Python. Each handler is embedded
  as a total function that returns either the exception that escapes the handler
  (\<open>Inl\<close>) or the value it returns (\<open>Inr\<close>), together with the list of calls it has
  made to external services, in the order in which it made them.

  A constructor of \<open>py_exn\<close> stands for the Python exception class of that name together
  with its subclasses. \<open>RequestException\<close> is \<open>requests.RequestException\<close> (HTTPError,
  Timeout, MissingSchema, ...), \<open>ClientError\<close> is \<open>botocore.exceptions.ClientError\<close>,
  \<open>OtherException\<close> is any other subclass of \<open>Exception\<close> (for instance botocore's
  EndpointConnectionError or ParamValidationError).
\<close>

datatype py_exn =
    ClientError
  | JSONDecodeError
  | RequestException
  | KeyError
  | IndexError
  | TypeError
  | AttributeError
  | ValueError
  | EnvironmentError string
  | OtherException

text \<open>
  A Python \<open>float\<close>: a finite value \<open>m * 2 ^ e\<close>, an infinity with its sign, or NaN.
  Only its truth value is used by the handlers.
\<close>

datatype py_float = Finite int int | Infinite bool | NaN

text \<open>
  The values \<open>json.loads\<close> produces. A \<open>dict\<close> is an association list read with
  \<open>map_of\<close>. A \<open>str\<close> is a \<open>string\<close>, one \<open>char\<close> for each character: the model covers
  the strings whose code points are below 256.
\<close>

datatype json =
    JNull
  | JBool bool
  | JInt int
  | JFloat py_float
  | JStr string
  | JArr "json list"
  | JObj "(string \<times> json) list"

text \<open>Sequencing of steps that may raise: the first exception ends the sequence.\<close>

definition py_bind :: "py_exn + 'a \<Rightarrow> ('a \<Rightarrow> py_exn + 'b) \<Rightarrow> py_exn + 'b" where
  "py_bind r f = (case r of Inl e \<Rightarrow> Inl e | Inr v \<Rightarrow> f v)"

text \<open>\<open>obj[key]\<close> for a \<open>str\<close> key: only a dict can be subscripted by a string.\<close>

fun py_getitem :: "json \<Rightarrow> string \<Rightarrow> py_exn + json" where
  "py_getitem (JObj kvs) k = (case map_of kvs k of None \<Rightarrow> Inl KeyError | Some v \<Rightarrow> Inr v)"
| "py_getitem _ k = Inl TypeError"

text \<open>
  \<open>obj[0]\<close>: the first element of a list, the first character of a string (a string
  again), KeyError on a dict (the keys of a parsed JSON object are strings), TypeError
  on anything else.
\<close>

fun py_getitem0 :: "json \<Rightarrow> py_exn + json" where
  "py_getitem0 (JArr []) = Inl IndexError"
| "py_getitem0 (JArr (x # xs)) = Inr x"
| "py_getitem0 (JStr []) = Inl IndexError"
| "py_getitem0 (JStr (c # cs)) = Inr (JStr [c])"
| "py_getitem0 (JObj kvs) = Inl KeyError"
| "py_getitem0 _ = Inl TypeError"

text \<open>\<open>a[k1][k2]...\<close>, evaluated from the left.\<close>

fun py_path :: "json \<Rightarrow> string list \<Rightarrow> py_exn + json" where
  "py_path v [] = Inr v"
| "py_path v (k # ks) = (case py_getitem v k of Inl e \<Rightarrow> Inl e | Inr w \<Rightarrow> py_path w ks)"

text \<open>\<open>sub in s\<close> on strings: \<open>sub\<close> occurs as a contiguous run of \<open>s\<close>.\<close>

fun str_contains :: "string \<Rightarrow> string \<Rightarrow> bool" where
  "str_contains sub [] = (sub = [])"
| "str_contains sub (c # cs) = (prefix sub (c # cs) \<or> str_contains sub cs)"

text \<open>
  \<open>key in obj\<close> for a \<open>str\<close> key: a key of a dict, an element of a list, a substring
  of a string; anything else is not iterable.
\<close>

fun py_in :: "string \<Rightarrow> json \<Rightarrow> py_exn + bool" where
  "py_in k (JObj kvs) = Inr (k \<in> fst ` set kvs)"
| "py_in k (JArr xs) = Inr (JStr k \<in> set xs)"
| "py_in k (JStr s) = Inr (str_contains k s)"
| "py_in k _ = Inl TypeError"

text \<open>The truth value of a Python object, as \<open>all([...])\<close> and \<open>not x\<close> read it.\<close>

fun py_bool :: "json \<Rightarrow> bool" where
  "py_bool JNull = False"
| "py_bool (JBool b) = b"
| "py_bool (JInt i) = (i \<noteq> 0)"
| "py_bool (JFloat (Finite m e)) = (m \<noteq> 0)"
| "py_bool (JFloat _) = True"
| "py_bool (JStr s) = (s \<noteq> [])"
| "py_bool (JArr xs) = (xs \<noteq> [])"
| "py_bool (JObj kvs) = (kvs \<noteq> [])"

text \<open>
  \<open>s.replace(old, new)\<close> for one-character \<open>old\<close> and \<open>new\<close>: every occurrence is
  replaced.
\<close>

definition str_replace :: "char \<Rightarrow> char \<Rightarrow> string \<Rightarrow> string" where
  "str_replace old new s = map (\<lambda>c. if c = old then new else c) s"

text \<open>\<open>x.replace("+", " ")\<close>: only a \<open>str\<close> has the method.\<close>

fun py_replace_plus :: "json \<Rightarrow> py_exn + string" where
  "py_replace_plus (JStr s) = Inr (str_replace CHR ''+'' CHR '' '' s)"
| "py_replace_plus _ = Inl AttributeError"

text \<open>\<open>sep.join(xs)\<close> on a list of strings.\<close>

fun str_join :: "string \<Rightarrow> string list \<Rightarrow> string" where
  "str_join sep [] = []"
| "str_join sep [x] = x"
| "str_join sep (x # y # ys) = x @ sep @ str_join sep (y # ys)"

text \<open>\<open>s.split(sep)\<close> for a one-character separator: one more part than separators.\<close>

fun str_split :: "char \<Rightarrow> string \<Rightarrow> string list" where
  "str_split sep [] = [[]]"
| "str_split sep (c # cs) =
     (if c = sep then [] # str_split sep cs
      else (case str_split sep cs of [] \<Rightarrow> [[c]] | p # ps \<Rightarrow> (c # p) # ps))"

text \<open>\<open>xs[i]\<close> for a non-negative index.\<close>

definition py_index :: "'a list \<Rightarrow> nat \<Rightarrow> py_exn + 'a" where
  "py_index xs i = (if i < length xs then Inr (xs ! i) else Inl IndexError)"

text \<open>\<open>os.environ\<close>: \<open>os.environ.get(k)\<close> is \<open>env k\<close>, \<open>os.environ[k]\<close> raises KeyError.\<close>

type_synonym environ = "string \<rightharpoonup> string"

definition environ_getitem :: "environ \<Rightarrow> string \<Rightarrow> py_exn + string" where
  "environ_getitem env k = (case env k of None \<Rightarrow> Inl KeyError | Some v \<Rightarrow> Inr v)"

text \<open>
  The calls to external services. The payload of an HTTP request is the Python dict
  passed as \<open>json=\<close>; a setting read with \<open>os.environ.get\<close> and passed on may be None.
\<close>

datatype call =
    DetectCustomLabels (ProjectVersionArn: string) (Bucket: json) (Name: string)
  | RequestsPost (post_url: "string option") (post_headers: "(string \<times> string) list")
      (post_json: json) (post_auth: "string option \<times> string option") (post_timeout: nat)
  | SendMessage (QueueUrl: string) (MessageBody: string)
  | DescribeProjectVersions (ProjectArn: string) (VersionNames: "string list")
  | StartProjectVersion (StartArn: string) (MinInferenceUnits: nat)
  | StopProjectVersion (StopArn: string)
  | GetQueueAttributes (AttrQueueUrl: string) (AttributeNames: "string list")

text \<open>
  The responses of the AWS client. boto3 builds them from the service's output shape,
  so a member has its declared type; a member may be missing, which is \<open>None\<close> here and
  a KeyError when the handler subscripts it.
\<close>

record custom_label =
  label_Name :: "string option"

record detect_response =
  CustomLabels :: "custom_label list option"

record version_description =
  Status :: "string option"

record describe_response =
  ProjectVersionDescriptions :: "version_description list option"

record start_response =
  start_Status :: "string option"

record attributes_response =
  Attributes :: "(string \<times> string) list option"

definition dict_getitem :: "'a option \<Rightarrow> py_exn + 'a" where
  "dict_getitem member = (case member of None \<Rightarrow> Inl KeyError | Some v \<Rightarrow> Inr v)"

text \<open>
  The outside world of a handler. The answer of a service is a function of the calls
  made so far, the last of which is the call being answered, so that a service can
  answer the same request differently at different times. \<open>requests_post\<close> answers
  with the HTTP status code of the response. \<open>json_loads\<close> is the standard library's
  parser.
\<close>

record world =
  json_loads :: "string \<Rightarrow> py_exn + json"
  detect_custom_labels :: "call list \<Rightarrow> py_exn + detect_response"
  requests_post :: "call list \<Rightarrow> py_exn + nat"
  send_message :: "call list \<Rightarrow> py_exn + unit"
  describe_project_versions :: "call list \<Rightarrow> py_exn + describe_response"
  start_project_version_api :: "call list \<Rightarrow> py_exn + start_response"
  stop_project_version_api :: "call list \<Rightarrow> py_exn + unit"
  get_queue_attributes :: "call list \<Rightarrow> py_exn + attributes_response"

text \<open>\<open>response.raise_for_status()\<close>: HTTPError for a 4xx or 5xx status.\<close>

definition raise_for_status :: "nat \<Rightarrow> py_exn + unit" where
  "raise_for_status status_code =
     (if 400 \<le> status_code \<and> status_code < 600 then Inl RequestException else Inr ())"

text \<open>The headers both Nuxeo requests send.\<close>

definition nuxeo_headers :: "(string \<times> string) list" where
  "nuxeo_headers =
     [(''Nuxeo-Transaction-Timeout'', ''3''),
      (''X-NXproperties'', ''*''),
      (''X-NXRepository'', ''default''),
      (''X-NXVoidOperation'', ''false''),
      (''content-type'', ''application/json'')]"


section \<open>AnalyseImageFunction: the batch consumer\<close>

text \<open>
  An element of \<open>event["Records"]\<close>: the envelope the queue delivers, with its
  identifier and its raw body.
\<close>

record inbound_message =
  messageId :: string
  body :: string

record sqs_event =
  Records :: "inbound_message list"

text \<open>An element of \<open>processed_messages\<close>.\<close>

record processed_entry =
  docUid :: json
  labels :: "string list"
  nuxeo_status :: nat

text \<open>
  What the handler returns: the dict with \<open>status\<close> and \<open>error\<close>, or the dict with
  \<open>status\<close>, \<open>processed\<close>, \<open>failed\<close> and \<open>results\<close>.
\<close>

datatype analyse_response =
    ErrorResponse string string
  | Report string nat nat "processed_entry list"

text \<open>The local variables the handler sets before its loop (lines 14 to 27).\<close>

record analyse_settings =
  nuxeo_url :: "string option"
  nuxeo_user :: "string option"
  nuxeo_password :: "string option"
  dlq_url :: string
  model_arn :: string

text \<open>Lines 43 to 46: the first record, and the three fields read from it.\<close>

definition extract_fields :: "json \<Rightarrow> py_exn + (json \<times> string \<times> json)" where
  "extract_fields msg_payload =
     py_bind (py_getitem msg_payload ''Records'') (\<lambda>records.
     py_bind (py_getitem0 records) (\<lambda>record.
     py_bind (py_path record [''s3'', ''bucket'', ''name'']) (\<lambda>bucket.
     py_bind (py_path record [''s3'', ''object'', ''key'']) (\<lambda>key.
     py_bind (py_replace_plus key) (\<lambda>img.
     py_bind (py_path record [''s3'', ''documentUUID'', ''uid'']) (\<lambda>doc_uid.
     Inr (bucket, img, doc_uid)))))))"

text \<open>Line 71: \<open>[label['Name'] for label in labels]\<close>.\<close>

fun label_names_of :: "custom_label list \<Rightarrow> py_exn + string list" where
  "label_names_of [] = Inr []"
| "label_names_of (label # rest) =
     (case dict_getitem (label_Name label) of
        Inl e \<Rightarrow> Inl e
      | Inr n \<Rightarrow> (case label_names_of rest of Inl e \<Rightarrow> Inl e | Inr ns \<Rightarrow> Inr (n # ns)))"

text \<open>Line 72: \<open>",".join(label_names) if label_names else "none"\<close>.\<close>

definition labels_value_of :: "string list \<Rightarrow> string" where
  "labels_value_of label_names =
     (if label_names \<noteq> [] then str_join '','' label_names else ''none'')"

text \<open>Lines 75 to 83: the body of the property-set request.\<close>

definition nuxeo_payload :: "string \<Rightarrow> json \<Rightarrow> json" where
  "nuxeo_payload labels_value doc_uid =
     JObj [(''params'', JObj [(''xpath'', JStr ''assetRecognition:landMark''),
                              (''save'', JStr ''true''),
                              (''value'', JStr labels_value)]),
           (''input'', doc_uid),
           (''context'', JObj [])]"

text \<open>
  Lines 56 to 108: the detection call, the labels, the request to the document store
  and the entry for \<open>processed_messages\<close>. Each external call is appended to the trace
  before its answer is read.
\<close>

definition detect_and_publish ::
  "world \<Rightarrow> analyse_settings \<Rightarrow> call list \<Rightarrow> json \<Rightarrow> string \<Rightarrow> json
     \<Rightarrow> (py_exn + processed_entry) \<times> call list" where
  "detect_and_publish w cfg tr bucket img doc_uid =
     (let tr1 = tr @ [DetectCustomLabels (model_arn cfg) bucket img] in
      case detect_custom_labels w tr1 of
        Inl e \<Rightarrow> (Inl e, tr1)
      | Inr response \<Rightarrow>
          (case py_bind (dict_getitem (CustomLabels response)) label_names_of of
             Inl e \<Rightarrow> (Inl e, tr1)
           | Inr label_names \<Rightarrow>
               (let labels_value = labels_value_of label_names;
                    tr2 = tr1 @ [RequestsPost (nuxeo_url cfg) nuxeo_headers
                                   (nuxeo_payload labels_value doc_uid)
                                   (nuxeo_user cfg, nuxeo_password cfg) 5] in
                case requests_post w tr2 of
                  Inl e \<Rightarrow> (Inl e, tr2)
                | Inr status_code \<Rightarrow>
                    (case raise_for_status status_code of
                       Inl e \<Rightarrow> (Inl e, tr2)
                     | Inr _ \<Rightarrow>
                         (Inr \<lparr>docUid = doc_uid, labels = label_names,
                               nuxeo_status = status_code\<rparr>, tr2)))))"

text \<open>
  Lines 37 to 108, on the parsed body. \<open>Inr None\<close> is one of the two places where the
  body of the \<open>try\<close> appends the message to \<open>failed_messages\<close> itself and continues;
  \<open>Inr (Some entry)\<close> is the append to \<open>processed_messages\<close>; \<open>Inl e\<close> is an exception
  raised inside the \<open>try\<close>.
\<close>

definition process_payload ::
  "world \<Rightarrow> analyse_settings \<Rightarrow> call list \<Rightarrow> json
     \<Rightarrow> (py_exn + processed_entry option) \<times> call list" where
  "process_payload w cfg tr msg_payload =
     (case py_in ''Records'' msg_payload of
        Inl e \<Rightarrow> (Inl e, tr)
      | Inr present \<Rightarrow>
          if \<not> present then (Inr None, tr)
          else
            (case extract_fields msg_payload of
               Inl e \<Rightarrow> (Inl e, tr)
             | Inr (bucket, img, doc_uid) \<Rightarrow>
                 if \<not> (py_bool bucket \<and> img \<noteq> [] \<and> py_bool doc_uid) then (Inr None, tr)
                 else
                   (case detect_and_publish w cfg tr bucket img doc_uid of
                      (Inl e, tr') \<Rightarrow> (Inl e, tr')
                    | (Inr entry, tr') \<Rightarrow> (Inr (Some entry), tr'))))"

text \<open>Lines 34 to 108: the body of the \<open>try\<close> for one message.\<close>

definition try_body ::
  "world \<Rightarrow> analyse_settings \<Rightarrow> call list \<Rightarrow> inbound_message
     \<Rightarrow> (py_exn + processed_entry option) \<times> call list" where
  "try_body w cfg tr msg =
     (case json_loads w (body msg) of
        Inl e \<Rightarrow> (Inl e, tr)
      | Inr msg_payload \<Rightarrow> process_payload w cfg tr msg_payload)"

text \<open>
  Lines 32 to 125: the loop over the batch. The state is \<open>processed_messages\<close>,
  \<open>failed_messages\<close> and the trace. The four \<open>except\<close> clauses (ClientError,
  JSONDecodeError, RequestException, Exception) differ in the line they log only: each
  appends the message to \<open>failed_messages\<close> and continues, and the last one catches
  every exception the first three do not.
\<close>

fun process_records ::
  "world \<Rightarrow> analyse_settings \<Rightarrow> inbound_message list
     \<Rightarrow> processed_entry list \<times> inbound_message list \<times> call list
     \<Rightarrow> processed_entry list \<times> inbound_message list \<times> call list" where
  "process_records w cfg [] st = st"
| "process_records w cfg (msg # msgs) (processed_messages, failed_messages, tr) =
     (case try_body w cfg tr msg of
        (Inr (Some entry), tr') \<Rightarrow>
          process_records w cfg msgs (processed_messages @ [entry], failed_messages, tr')
      | (Inr None, tr') \<Rightarrow>
          process_records w cfg msgs (processed_messages, failed_messages @ [msg], tr')
      | (Inl e, tr') \<Rightarrow>
          process_records w cfg msgs (processed_messages, failed_messages @ [msg], tr'))"

text \<open>
  Lines 128 to 136: the loop over \<open>failed_messages\<close>. Only a ClientError of
  \<open>send_message\<close> is caught; any other exception leaves the handler.
\<close>

fun send_failed ::
  "world \<Rightarrow> string \<Rightarrow> inbound_message list \<Rightarrow> call list \<Rightarrow> (py_exn + unit) \<times> call list" where
  "send_failed w url [] tr = (Inr (), tr)"
| "send_failed w url (failed_msg # rest) tr =
     (let tr' = tr @ [SendMessage url (body failed_msg)] in
      case send_message w tr' of
        Inr _ \<Rightarrow> send_failed w url rest tr'
      | Inl e \<Rightarrow> if e = ClientError then send_failed w url rest tr' else (Inl e, tr'))"

text \<open>
  Lines 14 to 17 and 27: the settings read from the environment, once the dead-letter
  queue URL and the model version ARN are known to be there. The three Nuxeo settings
  are read with \<open>os.environ.get\<close> and are not checked.
\<close>

definition read_settings :: "environ \<Rightarrow> string \<Rightarrow> string \<Rightarrow> analyse_settings" where
  "read_settings env url arn =
     \<lparr>nuxeo_url = env ''Nuxeo_Endpoint'',
      nuxeo_user = env ''Nuxeo_User'',
      nuxeo_password = env ''Nuxeo_Password'',
      dlq_url = url, model_arn = arn\<rparr>"

text \<open>
  The handler. \<open>not dlq_url\<close> holds for a missing and for an empty setting. Creating the
  three boto3 clients calls no service.
\<close>

definition analyse_lambda_handler ::
  "environ \<Rightarrow> world \<Rightarrow> sqs_event \<Rightarrow> (py_exn + analyse_response) \<times> call list" where
  "analyse_lambda_handler env w event =
     (case env ''DLQ_URL'' of
        None \<Rightarrow> (Inr (ErrorResponse ''500'' ''DLQ_URL not configured''), [])
      | Some url \<Rightarrow>
          if url = [] then (Inr (ErrorResponse ''500'' ''DLQ_URL not configured''), [])
          else
            (case environ_getitem env ''rekognition_model_project_version_arn'' of
               Inl e \<Rightarrow> (Inl e, [])
             | Inr arn \<Rightarrow>
                 (let cfg = read_settings env url arn in
                  case process_records w cfg (Records event) ([], [], []) of
                    (processed_messages, failed_messages, tr) \<Rightarrow>
                      (case send_failed w (dlq_url cfg) failed_messages tr of
                         (Inl e, tr') \<Rightarrow> (Inl e, tr')
                       | (Inr _, tr') \<Rightarrow>
                           (Inr (Report ''200'' (length processed_messages)
                                   (length failed_messages) processed_messages), tr')))))"


section \<open>StartModelFunction: ensureRunning\<close>

record model_env_vars =
  project_version_arn :: string
  project_arn :: string

text \<open>The dict literal reads the version ARN first.\<close>

definition start_get_environment_variables :: "environ \<Rightarrow> py_exn + model_env_vars" where
  "start_get_environment_variables env =
     py_bind (environ_getitem env ''rekog_model_project_version_arn'') (\<lambda>v.
     py_bind (environ_getitem env ''rekog_model_project_arn'') (\<lambda>p.
     Inr \<lparr>project_version_arn = v, project_arn = p\<rparr>))"

definition get_project_version_name :: "string \<Rightarrow> py_exn + string" where
  "get_project_version_name arn = py_index (str_split CHR ''/'' arn) 3"

text \<open>\<open>response['ProjectVersionDescriptions'][0]['Status']\<close>.\<close>

definition describe_status :: "describe_response \<Rightarrow> py_exn + string" where
  "describe_status response =
     py_bind (dict_getitem (ProjectVersionDescriptions response)) (\<lambda>descriptions.
     py_bind (py_index descriptions 0) (\<lambda>description.
     dict_getitem (Status description)))"

text \<open>The \<open>except\<close> clause logs and raises the exception again.\<close>

definition describe_project_version ::
  "world \<Rightarrow> call list \<Rightarrow> string \<Rightarrow> string \<Rightarrow> (py_exn + string) \<times> call list" where
  "describe_project_version w tr arn version_name =
     (let tr' = tr @ [DescribeProjectVersions arn [version_name]] in
      (py_bind (describe_project_versions w tr') describe_status, tr'))"

definition start_project_version ::
  "world \<Rightarrow> call list \<Rightarrow> string \<Rightarrow> (py_exn + start_response) \<times> call list" where
  "start_project_version w tr arn =
     (let tr' = tr @ [StartProjectVersion arn 1] in (start_project_version_api w tr', tr'))"

text \<open>
  What the handler returns: the \<open>str\<close> that \<open>describe_project_version\<close> returned, or
  the \<open>dict\<close> that \<open>start_project_version\<close> returned (the response of the client).
\<close>

datatype start_result =
    is_ReturnedStr: ReturnedStr string
  | is_ReturnedDict: ReturnedDict start_response

definition start_lambda_handler :: "environ \<Rightarrow> world \<Rightarrow> (py_exn + start_result) \<times> call list" where
  "start_lambda_handler env w =
     (case start_get_environment_variables env of
        Inl e \<Rightarrow> (Inl e, [])
      | Inr env_vars \<Rightarrow>
          (case get_project_version_name (project_version_arn env_vars) of
             Inl e \<Rightarrow> (Inl e, [])
           | Inr project_version_name \<Rightarrow>
               (case describe_project_version w [] (project_arn env_vars) project_version_name of
                  (Inl e, tr) \<Rightarrow> (Inl e, tr)
                | (Inr running_status, tr) \<Rightarrow>
                    if running_status \<in> set [''RUNNING'', ''STARTING'']
                    then (Inr (ReturnedStr running_status), tr)
                    else
                      (case start_project_version w tr (project_version_arn env_vars) of
                         (Inl e, tr') \<Rightarrow> (Inl e, tr')
                       | (Inr response, tr') \<Rightarrow> (Inr (ReturnedDict response), tr')))))"

section \<open>StopModelFunction: ensureStopped and the notification\<close>












section \<open>sqs_poller: the backlog gate\<close>

text \<open>\<open>int(c)\<close> for a string of one character: a decimal digit, or ValueError.\<close>

definition py_int_char :: "char \<Rightarrow> py_exn + int" where
  "py_int_char c =
     (let n = (of_char c :: nat) in
      if 48 \<le> n \<and> n \<le> 57 then Inr (int n - 48) else Inl ValueError)"

text \<open>
  The handler. \<open>count\<close> is the first character of the attribute's value, which the
  service gives as a string.
\<close>

definition poller_lambda_handler :: "environ \<Rightarrow> world \<Rightarrow> (py_exn + string) \<times> call list" where
  "poller_lambda_handler env w =
     (case environ_getitem env ''SQS_Queue_URL'' of
        Inl e \<Rightarrow> (Inl e, [])
      | Inr src_queue_url \<Rightarrow>
          (let tr = [GetQueueAttributes src_queue_url [''ApproximateNumberOfMessages'']] in
           (py_bind (get_queue_attributes w tr) (\<lambda>response.
            py_bind (dict_getitem (Attributes response)) (\<lambda>attrs.
            py_bind (dict_getitem (map_of attrs ''ApproximateNumberOfMessages'')) (\<lambda>number.
            py_bind (py_index number 0) (\<lambda>count.
            py_bind (py_int_char count) (\<lambda>n.
            if n > 0 then Inr ''incoming'' else Inr ''stop''))))), tr)))"


section \<open>Decimal numerals and example inputs\<close>

text \<open>
  The queue service reports a count as its decimal numeral without leading zeros;
  \<open>decimal n\<close> is that string.
\<close>

definition digit_char :: "nat \<Rightarrow> char" where
  "digit_char d = ''0123456789'' ! d"

function decimal :: "nat \<Rightarrow> string" where
  "decimal n =
     (if n < 10 then [digit_char n] else decimal (n div 10) @ [digit_char (n mod 10)])"
  by pat_completeness auto
termination
  by (relation "measure id") auto

declare decimal.simps [simp del]

text \<open>
  A message as the seeding function of the repository writes it (one record), the same
  message with a second record, and their parsed bodies.
\<close>

definition example_body :: string where
  \<open>example_body = ''{"Records": [{"s3": {"bucket": {"name": "b1"}, "object": {"key": "foo+bar.jpg"}, "documentUUID": {"uid": "doc-1"}}}]}''\<close>

definition two_records_body :: string where
  \<open>two_records_body = ''{"Records": [{"s3": {"bucket": {"name": "b1"}, "object": {"key": "foo+bar.jpg"}, "documentUUID": {"uid": "doc-1"}}}, null]}''\<close>

definition example_record :: json where
  "example_record =
     JObj [(''s3'', JObj [(''bucket'', JObj [(''name'', JStr ''b1'')]),
                          (''object'', JObj [(''key'', JStr ''foo+bar.jpg'')]),
                          (''documentUUID'', JObj [(''uid'', JStr ''doc-1'')])])]"

definition example_payload :: json where
  "example_payload = JObj [(''Records'', JArr [example_record])]"

definition two_records_payload :: json where
  "two_records_payload = JObj [(''Records'', JArr [example_record, JNull])]"

definition example_message :: inbound_message where
  "example_message = \<lparr>messageId = ''m-1'', body = example_body\<rparr>"

definition two_records_message :: inbound_message where
  "two_records_message = \<lparr>messageId = ''m-3'', body = two_records_body\<rparr>"

definition malformed_message :: inbound_message where
  "malformed_message = \<lparr>messageId = ''m-2'', body = ''not json''\<rparr>"

text \<open>An environment with every setting of the four handlers.\<close>

definition example_env :: environ where
  "example_env = map_of
     [(''Nuxeo_Endpoint'', ''https://nuxeo.example/api''),
      (''Nuxeo_User'', ''user''),
      (''Nuxeo_UserName'', ''user''),
      (''Nuxeo_Password'', ''secret''),
      (''DLQ_URL'', ''https://sqs.example/dlq''),
      (''SQS_Queue_URL'', ''https://sqs.example/incoming''),
      (''rekognition_model_project_version_arn'', ''arn:aws:rekognition:r:1:project/p/version/v1/17''),
      (''rekog_model_project_version_arn'', ''arn:aws:rekognition:r:1:project/p/version/v1/17''),
      (''rekog_model_project_arn'', ''arn:aws:rekognition:r:1:project/p/17'')]"

text \<open>
  A world in which the model is in state \<open>status\<close>, the queue reports \<open>number\<close>, the
  detector finds the labels cat and dog, the document store answers 200 (and a request
  without a URL fails in the HTTP library, as it does in \<open>requests\<close>), and every other
  call succeeds.
\<close>

definition example_world :: "string \<Rightarrow> string \<Rightarrow> world" where
  "example_world status number =
     \<lparr>json_loads = (\<lambda>s. if s = example_body then Inr example_payload
                         else if s = two_records_body then Inr two_records_payload
                         else Inl JSONDecodeError),
      detect_custom_labels = (\<lambda>tr. Inr \<lparr>CustomLabels =
         Some [\<lparr>label_Name = Some ''cat''\<rparr>, \<lparr>label_Name = Some ''dog''\<rparr>]\<rparr>),
      requests_post = (\<lambda>tr. case last tr of
         RequestsPost None h p a t \<Rightarrow> Inl RequestException | _ \<Rightarrow> Inr 200),
      send_message = (\<lambda>tr. Inr ()),
      describe_project_versions = (\<lambda>tr. Inr \<lparr>ProjectVersionDescriptions =
         Some [\<lparr>Status = Some status\<rparr>]\<rparr>),
      start_project_version_api = (\<lambda>tr. Inr \<lparr>start_Status = Some ''STARTING''\<rparr>),
      stop_project_version_api = (\<lambda>tr. Inr ()),
      get_queue_attributes = (\<lambda>tr. Inr \<lparr>Attributes =
         Some [(''ApproximateNumberOfMessages'', number)]\<rparr>)\<rparr>"


text \<open>The same world with a dead-letter queue that cannot be reached.\<close>

definition dlq_unreachable_world :: world where
  "dlq_unreachable_world =
     (example_world ''RUNNING'' ''0'')\<lparr>send_message := (\<lambda>tr. Inl OtherException)\<rparr>"

text \<open>The settings the batch consumer reads from the example environment.\<close>

definition example_settings :: analyse_settings where
  "example_settings = read_settings example_env ''https://sqs.example/dlq''
                        ''arn:aws:rekognition:r:1:project/p/version/v1/17''"

section \<open>The backlog gate\<close>

lemma decimal_head:
  "\<exists>d ds. decimal n = digit_char d # ds \<and> d < 10 \<and> (d = 0 \<longleftrightarrow> n = 0)"
proof (induction n rule: decimal.induct)
  case (1 n)
  show ?case
  proof (cases "n < 10")
    case True
    then show ?thesis by (subst decimal.simps) auto
  next
    case False
    with 1 obtain d ds where h: "decimal (n div 10) = digit_char d # ds" "d < 10"
      "d = 0 \<longleftrightarrow> n div 10 = 0" by auto
    from False have "n div 10 \<noteq> 0" by simp
    with h False show ?thesis by (subst decimal.simps) auto
  qed
qed

lemma py_int_char_digit: "d < 10 \<Longrightarrow> py_int_char (digit_char d) = Inr (int d)"
proof -
  assume "d < 10"
  then have "d \<in> {0, 1, 2, 3, 4, 5, 6, 7, 8, 9}" by auto
  then show ?thesis by (auto simp: digit_char_def py_int_char_def)
qed

text \<open>
  C4, as the code has it. When the queue URL is set and the service reports the count
  \<open>n\<close> (as its decimal numeral), the handler makes the one call that reads the attribute
  and returns the token \<open>incoming\<close> when \<open>n > 0\<close> and the token \<open>stop\<close> when \<open>n = 0\<close>.
\<close>

theorem backlog_gate_tokens:
  assumes "env ''SQS_Queue_URL'' = Some url"
    and "get_queue_attributes w [GetQueueAttributes url [''ApproximateNumberOfMessages'']]
           = Inr response"
    and "Attributes response = Some attrs"
    and "map_of attrs ''ApproximateNumberOfMessages'' = Some (decimal n)"
  shows "poller_lambda_handler env w =
           (Inr (if n > 0 then ''incoming'' else ''stop''),
            [GetQueueAttributes url [''ApproximateNumberOfMessages'']])"
proof -
  obtain d ds where h: "decimal n = digit_char d # ds" "d < 10" "d = 0 \<longleftrightarrow> n = 0"
    using decimal_head by blast
  have "py_index (decimal n) 0 = Inr (digit_char d)"
    using h by (simp add: py_index_def)
  then show ?thesis
    using assms h py_int_char_digit [of d]
    by (simp add: poller_lambda_handler_def environ_getitem_def py_bind_def dict_getitem_def)
qed

lemma decimal_12: "decimal 12 = ''12''"
  by (simp add: decimal.simps digit_char_def)

theorem backlog_gate_tokens_witness:
  "poller_lambda_handler example_env (example_world ''RUNNING'' ''12'') =
     (Inr ''incoming'',
      [GetQueueAttributes ''https://sqs.example/incoming'' [''ApproximateNumberOfMessages'']])"
  using backlog_gate_tokens [of example_env "''https://sqs.example/incoming''"
      "example_world ''RUNNING'' ''12''"
      "\<lparr>Attributes = Some [(''ApproximateNumberOfMessages'', ''12'')]\<rparr>"
      "[(''ApproximateNumberOfMessages'', ''12'')]" 12]
  by (simp add: example_env_def example_world_def decimal_12)

text \<open>
  C4 as stated fails: with a reported count of 1 the handler returns \<open>incoming\<close>, which
  is not the token \<open>continue\<close>.
\<close>

theorem backlog_gate_counterexample:
  "decimal 1 = ''1'' \<and>
   fst (poller_lambda_handler example_env (example_world ''RUNNING'' ''1'')) = Inr ''incoming'' \<and>
   fst (poller_lambda_handler example_env (example_world ''RUNNING'' ''1'')) \<noteq> Inr ''continue''"
  by (simp add: decimal.simps digit_char_def poller_lambda_handler_def example_env_def
      example_world_def environ_getitem_def py_bind_def dict_getitem_def py_index_def
      py_int_char_def)


section \<open>The batch consumer\<close>

lemma process_records_length:
  "process_records w cfg msgs (ps, fs, tr) = (ps', fs', tr') \<Longrightarrow>
     length ps' + length fs' = length ps + length fs + length msgs"
proof (induction msgs arbitrary: ps fs tr)
  case Nil
  then show ?case by simp
next
  case (Cons msg msgs)
  then show ?case
    by (auto split: prod.splits sum.splits option.splits)
qed

lemma analyse_report_cases:
  assumes "analyse_lambda_handler env w event = (Inr (Report st p f rs), tr)"
  shows "\<exists>url arn fs tr0.
           env ''DLQ_URL'' = Some url \<and> url \<noteq> []
           \<and> env ''rekognition_model_project_version_arn'' = Some arn
           \<and> process_records w (read_settings env url arn) (Records event) ([], [], [])
               = (rs, fs, tr0)
           \<and> st = ''200'' \<and> p = length rs \<and> f = length fs
           \<and> send_failed w url fs tr0 = (Inr (), tr)"
  using assms
  by (auto simp: analyse_lambda_handler_def environ_getitem_def Let_def read_settings_def
      split: option.splits if_splits sum.splits prod.splits)

text \<open>
  C1. Whenever the handler returns its report for a batch, the count of processed
  messages and the count of failed messages add up to the size of the batch, and the
  processed count is the number of results listed.
\<close>

theorem batch_report_counts:
  assumes "analyse_lambda_handler env w event = (Inr (Report st p f rs), tr)"
  shows "p + f = length (Records event) \<and> p = length rs"
proof -
  from analyse_report_cases [OF assms] obtain cfg fs tr0 where
    h: "process_records w cfg (Records event) ([], [], []) = (rs, fs, tr0)"
       "p = length rs" "f = length fs" by blast
  from process_records_length [OF h(1)] h(2,3) show ?thesis by simp
qed

text \<open>The definitions that evaluate the batch consumer on the example inputs.\<close>

lemmas analyse_eval =
  analyse_lambda_handler_def read_settings_def example_env_def example_world_def environ_getitem_def
  try_body_def process_payload_def extract_fields_def py_bind_def detect_and_publish_def
  dict_getitem_def labels_value_of_def raise_for_status_def nuxeo_payload_def nuxeo_headers_def
  example_body_def two_records_body_def example_payload_def two_records_payload_def
  example_record_def str_replace_def example_message_def malformed_message_def
  two_records_message_def Let_def

lemma example_batch_run:
  "analyse_lambda_handler example_env (example_world ''RUNNING'' ''2'')
     \<lparr>Records = [example_message, malformed_message]\<rparr> =
   (Inr (Report ''200'' 1 1
      [\<lparr>docUid = JStr ''doc-1'', labels = [''cat'', ''dog''], nuxeo_status = 200\<rparr>]),
    [DetectCustomLabels ''arn:aws:rekognition:r:1:project/p/version/v1/17'' (JStr ''b1'')
       ''foo bar.jpg'',
     RequestsPost (Some ''https://nuxeo.example/api'') nuxeo_headers
       (nuxeo_payload ''cat,dog'' (JStr ''doc-1'')) (Some ''user'', Some ''secret'') 5,
     SendMessage ''https://sqs.example/dlq'' ''not json''])"
  by (simp add: analyse_eval)

theorem batch_report_counts_witness:
  "analyse_lambda_handler example_env (example_world ''RUNNING'' ''2'')
     \<lparr>Records = [example_message, malformed_message]\<rparr> =
   (Inr (Report ''200'' 1 1
      [\<lparr>docUid = JStr ''doc-1'', labels = [''cat'', ''dog''], nuxeo_status = 200\<rparr>]),
    [DetectCustomLabels ''arn:aws:rekognition:r:1:project/p/version/v1/17'' (JStr ''b1'')
       ''foo bar.jpg'',
     RequestsPost (Some ''https://nuxeo.example/api'') nuxeo_headers
       (nuxeo_payload ''cat,dog'' (JStr ''doc-1'')) (Some ''user'', Some ''secret'') 5,
     SendMessage ''https://sqs.example/dlq'' ''not json''])
   \<and> (1::nat) + 1 = length (Records \<lparr>Records = [example_message, malformed_message]\<rparr>)"
  using batch_report_counts [OF example_batch_run] example_batch_run by simp

subsection \<open>What one message does\<close>

lemma label_names_of_map:
  "label_names_of ls = Inr names \<Longrightarrow> map label_Name ls = map Some names"
  by (induction ls arbitrary: names)
     (auto simp: dict_getitem_def split: option.splits sum.splits)

lemma detect_and_publish_cases:
  assumes "detect_and_publish w cfg tr bucket img doc_uid = (r, tr')"
  shows "(tr' = tr @ [DetectCustomLabels (model_arn cfg) bucket img] \<and> (\<exists>e. r = Inl e))
       \<or> (\<exists>response ls names.
             detect_custom_labels w (tr @ [DetectCustomLabels (model_arn cfg) bucket img])
               = Inr response
             \<and> CustomLabels response = Some ls \<and> label_names_of ls = Inr names
             \<and> tr' = tr @ [DetectCustomLabels (model_arn cfg) bucket img,
                           RequestsPost (nuxeo_url cfg) nuxeo_headers
                             (nuxeo_payload (labels_value_of names) doc_uid)
                             (nuxeo_user cfg, nuxeo_password cfg) 5]
             \<and> (\<forall>entry. r = Inr entry \<longrightarrow> docUid entry = doc_uid \<and> labels entry = names))"
  using assms
  by (auto simp: detect_and_publish_def Let_def py_bind_def dict_getitem_def
      split: sum.splits option.splits)

lemma process_payload_cases:
  assumes "process_payload w cfg tr msg_payload = (r, tr')"
  shows "(tr' = tr \<and> (\<forall>entry. r \<noteq> Inr (Some entry)))
       \<or> (\<exists>bucket img doc_uid r0.
             extract_fields msg_payload = Inr (bucket, img, doc_uid)
             \<and> detect_and_publish w cfg tr bucket img doc_uid = (r0, tr')
             \<and> r = map_sum id Some r0)"
  using assms
  by (auto simp: process_payload_def split: sum.splits if_splits prod.splits)

lemma try_body_cases:
  assumes "try_body w cfg tr msg = (r, tr')"
  shows "(tr' = tr \<and> (\<forall>entry. r \<noteq> Inr (Some entry)))
       \<or> (\<exists>msg_payload bucket img doc_uid r0.
             json_loads w (body msg) = Inr msg_payload
             \<and> extract_fields msg_payload = Inr (bucket, img, doc_uid)
             \<and> detect_and_publish w cfg tr bucket img doc_uid = (r0, tr')
             \<and> r = map_sum id Some r0)"
proof (cases "json_loads w (body msg)")
  case (Inl e)
  with assms show ?thesis by (auto simp: try_body_def)
next
  case (Inr msg_payload)
  with assms have "process_payload w cfg tr msg_payload = (r, tr')"
    by (simp add: try_body_def)
  from process_payload_cases [OF this] Inr show ?thesis by auto
qed

lemma extract_fields_key:
  assumes "extract_fields msg_payload = Inr (bucket, img, doc_uid)"
  shows "\<exists>records record key.
           py_getitem msg_payload ''Records'' = Inr records
           \<and> py_getitem0 records = Inr record
           \<and> py_path record [''s3'', ''object'', ''key''] = Inr (JStr key)
           \<and> img = str_replace CHR ''+'' CHR '' '' key"
proof -
  from assms obtain records rec1 k where
    h: "py_getitem msg_payload ''Records'' = Inr records" "py_getitem0 records = Inr rec1"
       "py_path rec1 [''s3'', ''object'', ''key''] = Inr k" "py_replace_plus k = Inr img"
    by (auto simp: extract_fields_def py_bind_def split: sum.splits)
  from h(4) obtain key where "k = JStr key" "img = str_replace CHR ''+'' CHR '' '' key"
    by (cases k) auto
  with h show ?thesis by blast
qed

lemma try_body_trace:
  "\<exists>new. snd (try_body w cfg tr msg) = tr @ new
          \<and> (\<forall>c \<in> set new. is_DetectCustomLabels c \<or> is_RequestsPost c)"
proof -
  obtain r tr' where h: "try_body w cfg tr msg = (r, tr')" by (cases "try_body w cfg tr msg")
  from try_body_cases [OF h] show ?thesis
  proof
    assume "tr' = tr \<and> (\<forall>entry. r \<noteq> Inr (Some entry))"
    with h show ?thesis by simp
  next
    assume "\<exists>msg_payload bucket img doc_uid r0.
             json_loads w (body msg) = Inr msg_payload
             \<and> extract_fields msg_payload = Inr (bucket, img, doc_uid)
             \<and> detect_and_publish w cfg tr bucket img doc_uid = (r0, tr')
             \<and> r = map_sum id Some r0"
    then obtain bucket img doc_uid r0 where
      "detect_and_publish w cfg tr bucket img doc_uid = (r0, tr')" by blast
    from detect_and_publish_cases [OF this] h show ?thesis by auto
  qed
qed

lemma try_body_sends:
  "filter is_SendMessage (snd (try_body w cfg tr msg)) = filter is_SendMessage tr"
proof -
  obtain new where h: "snd (try_body w cfg tr msg) = tr @ new"
    "\<forall>c \<in> set new. is_DetectCustomLabels c \<or> is_RequestsPost c"
    using try_body_trace by blast
  have "filter is_SendMessage new = []"
    using h(2) by (induction new) auto
  with h(1) show ?thesis by simp
qed

subsection \<open>The two loops\<close>

lemma process_records_append:
  "process_records w cfg (xs @ ys) st = process_records w cfg ys (process_records w cfg xs st)"
proof (induction xs arbitrary: st)
  case Nil
  then show ?case by simp
next
  case (Cons x xs)
  obtain ps fs tr where st: "st = (ps, fs, tr)" by (cases st)
  show ?case unfolding st
    by (simp add: Cons split: prod.splits sum.splits option.splits)
qed

lemma process_records_failed:
  "process_records w cfg msgs (ps, fs, tr) = (ps', fs', tr') \<Longrightarrow>
     \<exists>new. fs' = fs @ new \<and> subseq new msgs
            \<and> filter is_SendMessage tr' = filter is_SendMessage tr"
proof (induction msgs arbitrary: ps fs tr)
  case Nil
  then show ?case by simp
next
  case (Cons msg msgs)
  obtain r t where tb: "try_body w cfg tr msg = (r, t)" by (cases "try_body w cfg tr msg")
  have t: "filter is_SendMessage t = filter is_SendMessage tr"
    using try_body_sends [of w cfg tr msg] tb by simp
  show ?case
  proof (cases "\<exists>entry. r = Inr (Some entry)")
    case True
    then obtain entry where "r = Inr (Some entry)" by blast
    with Cons.prems tb have "process_records w cfg msgs (ps @ [entry], fs, t) = (ps', fs', tr')"
      by simp
    from Cons.IH [OF this] t show ?thesis by auto
  next
    case False
    with Cons.prems tb have "process_records w cfg msgs (ps, fs @ [msg], t) = (ps', fs', tr')"
      by (auto split: sum.splits option.splits)
    from Cons.IH [OF this] obtain new where
      "fs' = (fs @ [msg]) @ new" "subseq new msgs"
      "filter is_SendMessage tr' = filter is_SendMessage t" by blast
    with t show ?thesis by (intro exI [of _ "msg # new"]) auto
  qed
qed

lemma send_failed_trace:
  "send_failed w url fs tr = (r, tr') \<Longrightarrow>
     \<exists>k \<le> length fs. tr' = tr @ map (\<lambda>m. SendMessage url (body m)) (take k fs)
        \<and> (r = Inr () \<longrightarrow> k = length fs)"
proof (induction fs arbitrary: tr)
  case Nil
  then show ?case by simp
next
  case (Cons m fs)
  let ?t = "tr @ [SendMessage url (body m)]"
  show ?case
  proof (cases "send_message w ?t = Inr () \<or> send_message w ?t = Inl ClientError")
    case True
    with Cons.prems have "send_failed w url fs ?t = (r, tr')"
      by (auto simp: Let_def)
    from Cons.IH [OF this] obtain k where
      "k \<le> length fs" "tr' = ?t @ map (\<lambda>m. SendMessage url (body m)) (take k fs)"
      "r = Inr () \<longrightarrow> k = length fs" by blast
    then show ?thesis by (intro exI [of _ "Suc k"]) auto
  next
    case False
    with Cons.prems have "tr' = ?t" "r \<noteq> Inr ()"
      by (auto simp: Let_def split: sum.splits if_splits)
    then show ?thesis by (intro exI [of _ "Suc 0"]) auto
  qed
qed

lemma send_failed_returns:
  assumes "\<forall>t. send_message w t = Inr () \<or> send_message w t = Inl ClientError"
  shows "fst (send_failed w url fs tr) = Inr ()"
  using assms
proof (induction fs arbitrary: tr)
  case Nil
  then show ?case by simp
next
  case (Cons m fs)
  let ?t = "tr @ [SendMessage url (body m)]"
  from Cons.prems have "send_message w ?t = Inr () \<or> send_message w ?t = Inl ClientError"
    by blast
  then show ?case
    using Cons.IH [OF Cons.prems, of ?t] by (auto simp: Let_def)
qed

subsection \<open>Failure isolation\<close>

lemma detect_and_publish_success:
  assumes "detect_and_publish w cfg tr bucket img doc_uid = (Inr entry, tr')"
  shows "\<exists>response ls status_code.
           detect_custom_labels w (tr @ [DetectCustomLabels (model_arn cfg) bucket img])
             = Inr response
         \<and> CustomLabels response = Some ls
         \<and> label_names_of ls = Inr (labels entry)
         \<and> requests_post w tr' = Inr status_code
         \<and> \<not> (400 \<le> status_code \<and> status_code < 600)
         \<and> nuxeo_status entry = status_code"
  using assms
  by (auto simp: detect_and_publish_def Let_def py_bind_def dict_getitem_def
      raise_for_status_def split: sum.splits option.splits if_splits)

lemma process_payload_success:
  assumes "process_payload w cfg tr msg_payload = (Inr (Some entry), tr')"
  shows "\<exists>bucket img doc_uid.
           py_in ''Records'' msg_payload = Inr True
         \<and> extract_fields msg_payload = Inr (bucket, img, doc_uid)
         \<and> py_bool bucket \<and> img \<noteq> [] \<and> py_bool doc_uid
         \<and> detect_and_publish w cfg tr bucket img doc_uid = (Inr entry, tr')"
  using assms
  by (auto simp: process_payload_def split: sum.splits if_splits prod.splits)

text \<open>
  A message is counted as processed only if every stage succeeded: the body parsed,
  it has a \<open>Records\<close> member, the three fields were read from the first record and
  are not empty, the detector answered, each label has a name, and the document store
  answered with a status that is not 4xx or 5xx. So a failure at any stage leaves the
  message out of the processed list.
\<close>

lemma success_needs_every_stage:
  assumes "try_body w cfg tr msg = (Inr (Some entry), tr')"
  shows "\<exists>msg_payload bucket img doc_uid response ls status_code.
           json_loads w (body msg) = Inr msg_payload
         \<and> py_in ''Records'' msg_payload = Inr True
         \<and> extract_fields msg_payload = Inr (bucket, img, doc_uid)
         \<and> py_bool bucket \<and> img \<noteq> [] \<and> py_bool doc_uid
         \<and> detect_custom_labels w (tr @ [DetectCustomLabels (model_arn cfg) bucket img])
             = Inr response
         \<and> CustomLabels response = Some ls
         \<and> label_names_of ls = Inr (labels entry)
         \<and> requests_post w tr' = Inr status_code
         \<and> \<not> (400 \<le> status_code \<and> status_code < 600)"
proof -
  from assms obtain msg_payload where
    p: "json_loads w (body msg) = Inr msg_payload"
       "process_payload w cfg tr msg_payload = (Inr (Some entry), tr')"
    by (auto simp: try_body_def split: sum.splits)
  from process_payload_success [OF p(2)] obtain bucket img doc_uid where
    q: "py_in ''Records'' msg_payload = Inr True"
       "extract_fields msg_payload = Inr (bucket, img, doc_uid)"
       "py_bool bucket" "img \<noteq> []" "py_bool doc_uid"
       "detect_and_publish w cfg tr bucket img doc_uid = (Inr entry, tr')"
    by blast
  from detect_and_publish_success [OF q(6)] p(1) q(1-5) show ?thesis by blast
qed

text \<open>A message that is not processed is appended to the failed list, and the loop goes on.\<close>

lemma failed_message_is_listed:
  assumes "try_body w cfg tr msg = (r, tr')" and "\<forall>entry. r \<noteq> Inr (Some entry)"
  shows "process_records w cfg (msg # msgs) (ps, fs, tr)
           = process_records w cfg msgs (ps, fs @ [msg], tr')"
  using assms by (auto split: sum.splits option.splits)

lemma analyse_configured:
  assumes "env ''DLQ_URL'' = Some url" "url \<noteq> []"
    and "env ''rekognition_model_project_version_arn'' = Some arn"
    and "process_records w (read_settings env url arn) (Records event) ([], [], []) = (ps, fs, t)"
  shows "analyse_lambda_handler env w event =
           (case send_failed w url fs t of
              (Inl e, t') \<Rightarrow> (Inl e, t')
            | (Inr u, t') \<Rightarrow> (Inr (Report ''200'' (length ps) (length fs) ps), t'))"
  using assms
  by (simp add: analyse_lambda_handler_def environ_getitem_def Let_def read_settings_def)

text \<open>
  What holds of the loop over the batch. With the dead-letter queue URL and the model
  version ARN set, and when no dead-letter send raises an exception other than
  ClientError: whatever the parser, the detector and the document store do, the
  handler returns the report with status 200, and its two counts add up to the size of
  the batch. And at every position of the batch: when the message there fails at any
  stage (the body of the \<open>try\<close> ends in an exception or in one of its own
  rejections), the loop goes on with the messages after it, from a state in which that
  message has been appended to the failed list and nothing else has changed but the
  trace of calls.
\<close>

lemma loop_continues_after_failure:
  assumes "env ''DLQ_URL'' = Some url" "url \<noteq> []"
    and "env ''rekognition_model_project_version_arn'' = Some arn"
    and "\<forall>t. send_message w t = Inr () \<or> send_message w t = Inl ClientError"
  shows "(\<exists>p f rs tr. analyse_lambda_handler env w event = (Inr (Report ''200'' p f rs), tr)
            \<and> p + f = length (Records event))
       \<and> (\<forall>before msg after ps fs0 t r t'.
            Records event = before @ msg # after \<longrightarrow>
            process_records w (read_settings env url arn) before ([], [], []) = (ps, fs0, t) \<longrightarrow>
            try_body w (read_settings env url arn) t msg = (r, t') \<longrightarrow>
            (\<forall>entry. r \<noteq> Inr (Some entry)) \<longrightarrow>
            process_records w (read_settings env url arn) (Records event) ([], [], [])
              = process_records w (read_settings env url arn) after (ps, fs0 @ [msg], t'))"
proof
  obtain ps fs t where
    pr: "process_records w (read_settings env url arn) (Records event) ([], [], []) = (ps, fs, t)"
    by (cases "process_records w (read_settings env url arn) (Records event) ([], [], [])")
  obtain u t' where sf: "send_failed w url fs t = (u, t')" by (cases "send_failed w url fs t")
  from send_failed_returns [OF assms(4), of url fs t] sf have "u = Inr ()" by simp
  with analyse_configured [OF assms(1-3) pr] sf
  have "analyse_lambda_handler env w event = (Inr (Report ''200'' (length ps) (length fs) ps), t')"
    by simp
  moreover from process_records_length [OF pr]
  have "length ps + length fs = length (Records event)" by simp
  ultimately show "\<exists>p f rs tr. analyse_lambda_handler env w event
              = (Inr (Report ''200'' p f rs), tr)
            \<and> p + f = length (Records event)"
    by blast
next
  show "\<forall>before msg after ps fs0 t r t'.
            Records event = before @ msg # after \<longrightarrow>
            process_records w (read_settings env url arn) before ([], [], []) = (ps, fs0, t) \<longrightarrow>
            try_body w (read_settings env url arn) t msg = (r, t') \<longrightarrow>
            (\<forall>entry. r \<noteq> Inr (Some entry)) \<longrightarrow>
            process_records w (read_settings env url arn) (Records event) ([], [], [])
              = process_records w (read_settings env url arn) after (ps, fs0 @ [msg], t')"
  proof (intro allI impI)
    fix before msg after ps fs0 t r t'
    assume h: "Records event = before @ msg # after"
      "process_records w (read_settings env url arn) before ([], [], []) = (ps, fs0, t)"
      "try_body w (read_settings env url arn) t msg = (r, t')"
      "\<forall>entry. r \<noteq> Inr (Some entry)"
    have "process_records w (read_settings env url arn) (msg # after) (ps, fs0, t)
            = process_records w (read_settings env url arn) after (ps, fs0 @ [msg], t')"
      using h(3,4) by (auto split: sum.splits option.splits)
    with h(1,2) show "process_records w (read_settings env url arn) (Records event) ([], [], [])
              = process_records w (read_settings env url arn) after (ps, fs0 @ [msg], t')"
      by (simp add: process_records_append)
  qed
qed

lemma loop_continues_after_failure_example:
  "(\<exists>p f rs tr. analyse_lambda_handler example_env (example_world ''RUNNING'' ''2'')
        \<lparr>Records = [malformed_message, example_message]\<rparr>
        = (Inr (Report ''200'' p f rs), tr)
      \<and> p + f = length (Records \<lparr>Records = [malformed_message, example_message]\<rparr>))
   \<and> try_body (example_world ''RUNNING'' ''2'') example_settings [] malformed_message
        = (Inl JSONDecodeError, [])
   \<and> process_records (example_world ''RUNNING'' ''2'') example_settings
        [malformed_message, example_message] ([], [], [])
      = process_records (example_world ''RUNNING'' ''2'') example_settings
        [example_message] ([], [malformed_message], [])"
proof -
  let ?w = "example_world ''RUNNING'' ''2''"
  let ?event = "\<lparr>Records = [malformed_message, example_message]\<rparr>"
  have a: "example_env ''DLQ_URL'' = Some ''https://sqs.example/dlq''"
    "''https://sqs.example/dlq'' \<noteq> []"
    "example_env ''rekognition_model_project_version_arn''
       = Some ''arn:aws:rekognition:r:1:project/p/version/v1/17''"
    "\<forall>t. send_message ?w t = Inr () \<or> send_message ?w t = Inl ClientError"
    by (simp_all add: example_env_def example_world_def)
  have tb: "try_body ?w example_settings [] malformed_message = (Inl JSONDecodeError, [])"
    by (simp add: try_body_def example_world_def malformed_message_def example_body_def
        two_records_body_def)
  note t = loop_continues_after_failure [OF a, of ?event, folded example_settings_def]
  have 1: "\<exists>p f rs tr. analyse_lambda_handler example_env ?w ?event
        = (Inr (Report ''200'' p f rs), tr)
      \<and> p + f = length (Records ?event)"
    using t [THEN conjunct1] .
  have 2: "process_records ?w example_settings [malformed_message, example_message] ([], [], [])
      = process_records ?w example_settings [example_message] ([], [malformed_message], [])"
    using t [THEN conjunct2, rule_format, of "[]" malformed_message "[example_message]"
        "[]" "[]" "[]" "Inl JSONDecodeError" "[]"] tb
    by simp
  from 1 tb 2 show ?thesis by blast
qed

text \<open>
  C2 fails on the code in its last part. The dead-letter loop is written to log a send
  that fails and to go on, but it catches ClientError only. Take a batch of one message
  whose body does not parse, and a dead-letter queue whose send raises another
  exception (the client cannot reach the service, say). The message is put on the
  failed list, the send is attempted, and its exception leaves the handler: the
  invocation returns no report.
\<close>

theorem dead_letter_error_escapes:
  "analyse_lambda_handler example_env dlq_unreachable_world \<lparr>Records = [malformed_message]\<rparr>
     = (Inl OtherException, [SendMessage ''https://sqs.example/dlq'' ''not json''])"
  by (simp add: analyse_eval dlq_unreachable_world_def)

subsection \<open>Dead-letter routing\<close>

lemma filter_sends_map:
  "filter is_SendMessage (map (\<lambda>m. SendMessage url (body m)) ms)
     = map (\<lambda>m. SendMessage url (body m)) ms"
  by (induction ms) auto

text \<open>
  C7. With the dead-letter queue URL and the model version ARN set, let
  \<open>failed_messages\<close> be the failed list the loop over the batch ends with. Its elements
  are messages of the batch, as they were received and in the order of the batch. The
  dead-letter sends of the handler are, in that order, one \<open>SendMessage\<close> for each of
  the first \<open>k\<close> failed messages, whose \<open>MessageBody\<close> is the \<open>body\<close> field of that
  message itself: the string the handler was given, not the parsed or decoded value.
  Whenever the handler returns, \<open>k\<close> is the number of failed messages.
\<close>

theorem dead_letter_body_verbatim:
  assumes "env ''DLQ_URL'' = Some url" "url \<noteq> []"
    and "env ''rekognition_model_project_version_arn'' = Some arn"
    and "process_records w (read_settings env url arn) (Records event) ([], [], [])
           = (ps, failed_messages, t)"
  shows "subseq failed_messages (Records event)
       \<and> (\<exists>k \<le> length failed_messages.
            filter is_SendMessage (snd (analyse_lambda_handler env w event))
              = map (\<lambda>m. SendMessage url (body m)) (take k failed_messages)
            \<and> (\<forall>response. fst (analyse_lambda_handler env w event) = Inr response
                  \<longrightarrow> k = length failed_messages))"
proof -
  from process_records_failed [OF assms(4)]
  have sub: "subseq failed_messages (Records event)" and t: "filter is_SendMessage t = []"
    by auto
  obtain u t' where sf: "send_failed w url failed_messages t = (u, t')"
    by (cases "send_failed w url failed_messages t")
  from send_failed_trace [OF sf] obtain k where
    k: "k \<le> length failed_messages"
       "t' = t @ map (\<lambda>m. SendMessage url (body m)) (take k failed_messages)"
       "u = Inr () \<longrightarrow> k = length failed_messages" by blast
  have h: "analyse_lambda_handler env w event =
             (case u of Inl e \<Rightarrow> (Inl e, t')
              | Inr x \<Rightarrow> (Inr (Report ''200'' (length ps) (length failed_messages) ps), t'))"
    using analyse_configured [OF assms] sf by simp
  have "snd (analyse_lambda_handler env w event) = t'"
    using h by (cases u) auto
  moreover have "\<forall>response. fst (analyse_lambda_handler env w event) = Inr response
                  \<longrightarrow> k = length failed_messages"
    using h k(3) by (cases u) auto
  moreover have "filter is_SendMessage t'
                   = map (\<lambda>m. SendMessage url (body m)) (take k failed_messages)"
    using k(2) t by (simp add: filter_sends_map)
  ultimately show ?thesis using sub k(1) by auto
qed

lemma example_failed:
  "process_records (example_world ''RUNNING'' ''2'')
     (read_settings example_env ''https://sqs.example/dlq''
        ''arn:aws:rekognition:r:1:project/p/version/v1/17'')
     (Records \<lparr>Records = [malformed_message, example_message]\<rparr>) ([], [], [])
   = ([\<lparr>docUid = JStr ''doc-1'', labels = [''cat'', ''dog''], nuxeo_status = 200\<rparr>],
      [malformed_message],
      [DetectCustomLabels ''arn:aws:rekognition:r:1:project/p/version/v1/17'' (JStr ''b1'')
         ''foo bar.jpg'',
       RequestsPost (Some ''https://nuxeo.example/api'') nuxeo_headers
         (nuxeo_payload ''cat,dog'' (JStr ''doc-1'')) (Some ''user'', Some ''secret'') 5])"
  by (simp add: analyse_eval)

theorem dead_letter_body_verbatim_witness:
  "subseq [malformed_message] (Records \<lparr>Records = [malformed_message, example_message]\<rparr>)
   \<and> (\<exists>k \<le> length [malformed_message].
        filter is_SendMessage (snd (analyse_lambda_handler example_env
            (example_world ''RUNNING'' ''2'')
            \<lparr>Records = [malformed_message, example_message]\<rparr>))
          = map (\<lambda>m. SendMessage ''https://sqs.example/dlq'' (body m))
              (take k [malformed_message])
        \<and> (\<forall>response. fst (analyse_lambda_handler example_env
            (example_world ''RUNNING'' ''2'')
            \<lparr>Records = [malformed_message, example_message]\<rparr>) = Inr response
              \<longrightarrow> k = length [malformed_message]))"
proof -
  have a: "example_env ''DLQ_URL'' = Some ''https://sqs.example/dlq''"
    "''https://sqs.example/dlq'' \<noteq> []"
    "example_env ''rekognition_model_project_version_arn''
       = Some ''arn:aws:rekognition:r:1:project/p/version/v1/17''"
    by (simp_all add: example_env_def)
  show ?thesis
    using dead_letter_body_verbatim [OF a example_failed] .
qed

subsection \<open>The published value\<close>

text \<open>
  C8. When a message is processed successfully, the calls it adds to the trace are one
  detection call and one request to the document store. The \<open>value\<close> parameter of that
  request is the comma-joined list of the label names of the entry, and \<open>none\<close> when
  there is no label; those names are the names of the labels in the detector's
  response, in the order of the response.
\<close>

theorem published_value_is_joined_labels:
  assumes "try_body w cfg tr msg = (Inr (Some entry), tr')"
  shows "\<exists>bucket img response ls value.
           tr' = tr @ [DetectCustomLabels (model_arn cfg) bucket img,
                       RequestsPost (nuxeo_url cfg) nuxeo_headers
                         (nuxeo_payload value (docUid entry))
                         (nuxeo_user cfg, nuxeo_password cfg) 5]
         \<and> py_path (nuxeo_payload value (docUid entry)) [''params'', ''value'']
             = Inr (JStr value)
         \<and> value = (if labels entry = [] then ''none'' else str_join '','' (labels entry))
         \<and> detect_custom_labels w (tr @ [DetectCustomLabels (model_arn cfg) bucket img])
             = Inr response
         \<and> CustomLabels response = Some ls
         \<and> map label_Name ls = map Some (labels entry)"
proof -
  from try_body_cases [OF assms] obtain bucket img doc_uid r0 where
    d: "detect_and_publish w cfg tr bucket img doc_uid = (r0, tr')"
    and r: "Inr (Some entry) = map_sum id Some r0"
    by auto
  from r have r0: "r0 = Inr entry" by (cases r0) auto
  from detect_and_publish_cases [OF d] r0 obtain response ls names where
    h: "detect_custom_labels w (tr @ [DetectCustomLabels (model_arn cfg) bucket img])
          = Inr response"
       "CustomLabels response = Some ls" "label_names_of ls = Inr names"
       "tr' = tr @ [DetectCustomLabels (model_arn cfg) bucket img,
                    RequestsPost (nuxeo_url cfg) nuxeo_headers
                      (nuxeo_payload (labels_value_of names) doc_uid)
                      (nuxeo_user cfg, nuxeo_password cfg) 5]"
       "docUid entry = doc_uid" "labels entry = names"
    by auto
  have "py_path (nuxeo_payload (labels_value_of names) doc_uid) [''params'', ''value'']
          = Inr (JStr (labels_value_of names))"
    by (simp add: nuxeo_payload_def)
  moreover have "labels_value_of names
                   = (if labels entry = [] then ''none'' else str_join '','' (labels entry))"
    using h(6) by (simp add: labels_value_of_def)
  moreover note label_names_of_map [OF h(3)]
  ultimately show ?thesis using h by auto
qed

lemma example_try_body:
  "try_body (example_world ''RUNNING'' ''2'') example_settings [] example_message =
     (Inr (Some \<lparr>docUid = JStr ''doc-1'', labels = [''cat'', ''dog''], nuxeo_status = 200\<rparr>),
      [DetectCustomLabels ''arn:aws:rekognition:r:1:project/p/version/v1/17'' (JStr ''b1'')
         ''foo bar.jpg'',
       RequestsPost (Some ''https://nuxeo.example/api'') nuxeo_headers
         (nuxeo_payload ''cat,dog'' (JStr ''doc-1'')) (Some ''user'', Some ''secret'') 5])"
  by (simp add: analyse_eval example_settings_def)

theorem published_value_is_joined_labels_witness:
  "\<exists>bucket img response ls value.
     [DetectCustomLabels ''arn:aws:rekognition:r:1:project/p/version/v1/17'' (JStr ''b1'')
         ''foo bar.jpg'',
      RequestsPost (Some ''https://nuxeo.example/api'') nuxeo_headers
         (nuxeo_payload ''cat,dog'' (JStr ''doc-1'')) (Some ''user'', Some ''secret'') 5]
       = [] @ [DetectCustomLabels (model_arn example_settings) bucket img,
               RequestsPost (nuxeo_url example_settings) nuxeo_headers
                 (nuxeo_payload value (JStr ''doc-1''))
                 (nuxeo_user example_settings, nuxeo_password example_settings) 5]
   \<and> py_path (nuxeo_payload value (JStr ''doc-1'')) [''params'', ''value''] = Inr (JStr value)
   \<and> value = ''cat,dog''
   \<and> detect_custom_labels (example_world ''RUNNING'' ''2'')
        ([] @ [DetectCustomLabels (model_arn example_settings) bucket img]) = Inr response
   \<and> CustomLabels response = Some ls
   \<and> map label_Name ls = map Some [''cat'', ''dog'']"
  using published_value_is_joined_labels [OF example_try_body] by simp

subsection \<open>The decoded object key\<close>

text \<open>
  C9. Every detection call that the processing of a message adds to the trace has as
  its \<open>Name\<close> the object key of the first record of the parsed body with each \<open>+\<close>
  replaced by a space and every other character unchanged.
\<close>

theorem detection_key_is_decoded:
  assumes "try_body w cfg tr msg = (r, tr')"
    and "DetectCustomLabels arn bucket name \<in> set (drop (length tr) tr')"
  shows "\<exists>msg_payload records first_record key.
           json_loads w (body msg) = Inr msg_payload
         \<and> py_getitem msg_payload ''Records'' = Inr records
         \<and> py_getitem0 records = Inr first_record
         \<and> py_path first_record [''s3'', ''object'', ''key''] = Inr (JStr key)
         \<and> name = str_replace CHR ''+'' CHR '' '' key
         \<and> length name = length key
         \<and> (\<forall>i < length key. name ! i = (if key ! i = CHR ''+'' then CHR '' '' else key ! i))"
proof -
  from try_body_cases [OF assms(1)] assms(2) obtain msg_payload b img doc_uid r0 where
    h: "json_loads w (body msg) = Inr msg_payload"
       "extract_fields msg_payload = Inr (b, img, doc_uid)"
       "detect_and_publish w cfg tr b img doc_uid = (r0, tr')"
    by auto
  from detect_and_publish_cases [OF h(3)] assms(2) have "name = img" by auto
  moreover from extract_fields_key [OF h(2)] obtain records first_record key where
    k: "py_getitem msg_payload ''Records'' = Inr records"
       "py_getitem0 records = Inr first_record"
       "py_path first_record [''s3'', ''object'', ''key''] = Inr (JStr key)"
       "img = str_replace CHR ''+'' CHR '' '' key" by blast
  ultimately show ?thesis using h(1) by (auto simp: str_replace_def)
qed

theorem detection_key_is_decoded_witness:
  "\<exists>msg_payload records first_record key.
     json_loads (example_world ''RUNNING'' ''2'') (body example_message) = Inr msg_payload
   \<and> py_getitem msg_payload ''Records'' = Inr records
   \<and> py_getitem0 records = Inr first_record
   \<and> py_path first_record [''s3'', ''object'', ''key''] = Inr (JStr key)
   \<and> ''foo bar.jpg'' = str_replace CHR ''+'' CHR '' '' key
   \<and> length ''foo bar.jpg'' = length key
   \<and> (\<forall>i < length key. ''foo bar.jpg'' ! i = (if key ! i = CHR ''+'' then CHR '' '' else key ! i))"
proof -
  have "DetectCustomLabels ''arn:aws:rekognition:r:1:project/p/version/v1/17'' (JStr ''b1'')
          ''foo bar.jpg''
        \<in> set (drop (length ([] :: call list))
            [DetectCustomLabels ''arn:aws:rekognition:r:1:project/p/version/v1/17'' (JStr ''b1'')
               ''foo bar.jpg'',
             RequestsPost (Some ''https://nuxeo.example/api'') nuxeo_headers
               (nuxeo_payload ''cat,dog'' (JStr ''doc-1'')) (Some ''user'', Some ''secret'') 5])"
    by simp
  from detection_key_is_decoded [OF example_try_body this] show ?thesis .
qed

subsection \<open>Records after the first\<close>

text \<open>
  C10. Two messages whose parsed bodies are objects with the same first element in
  their \<open>Records\<close> list are processed alike, from the same trace: the same outcome
  (exception, rejection or entry with its labels), and the same calls to the detector
  and to the document store. So the records after the first have no effect.
\<close>

theorem only_first_record_is_used:
  assumes "json_loads w (body msg) = Inr (JObj kvs)"
    and "json_loads w (body msg') = Inr (JObj kvs')"
    and "map_of kvs ''Records'' = Some (JArr (first_record # others))"
    and "map_of kvs' ''Records'' = Some (JArr (first_record # others'))"
  shows "try_body w cfg tr msg = try_body w cfg tr msg'"
proof -
  have "''Records'' \<in> fst ` set kvs" "''Records'' \<in> fst ` set kvs'"
    using assms(3,4) by (auto dest!: map_of_SomeD intro: rev_image_eqI)
  moreover have "extract_fields (JObj kvs) = extract_fields (JObj kvs')"
    using assms(3,4) by (simp add: extract_fields_def py_bind_def)
  ultimately have "process_payload w cfg tr (JObj kvs) = process_payload w cfg tr (JObj kvs')"
    by (simp add: process_payload_def)
  with assms(1,2) show ?thesis by (simp add: try_body_def)
qed

theorem only_first_record_is_used_witness:
  "try_body (example_world ''RUNNING'' ''2'') example_settings [] two_records_message
     = try_body (example_world ''RUNNING'' ''2'') example_settings [] example_message
   \<and> try_body (example_world ''RUNNING'' ''2'') example_settings [] two_records_message
     = (Inr (Some \<lparr>docUid = JStr ''doc-1'', labels = [''cat'', ''dog''], nuxeo_status = 200\<rparr>),
        [DetectCustomLabels ''arn:aws:rekognition:r:1:project/p/version/v1/17'' (JStr ''b1'')
           ''foo bar.jpg'',
         RequestsPost (Some ''https://nuxeo.example/api'') nuxeo_headers
           (nuxeo_payload ''cat,dog'' (JStr ''doc-1'')) (Some ''user'', Some ''secret'') 5])"
proof -
  let ?w = "example_world ''RUNNING'' ''2''"
  have a: "json_loads ?w (body two_records_message)
             = Inr (JObj [(''Records'', JArr [example_record, JNull])])"
    "json_loads ?w (body example_message) = Inr (JObj [(''Records'', JArr [example_record])])"
    by (simp_all add: example_world_def two_records_message_def example_message_def
        example_body_def two_records_body_def example_payload_def two_records_payload_def)
  have b: "map_of [(''Records'', JArr [example_record, JNull])] ''Records''
             = Some (JArr (example_record # [JNull]))"
    "map_of [(''Records'', JArr [example_record])] ''Records''
             = Some (JArr (example_record # []))"
    by simp_all
  from only_first_record_is_used [OF a b, of example_settings "[]"] example_try_body
  show ?thesis by simp
qed

subsection \<open>Missing settings\<close>

text \<open>
  Without the dead-letter queue URL, or without the model version ARN, the handler
  calls no service and returns no report.
\<close>

lemma configuration_guard:
  assumes "env ''DLQ_URL'' = None \<or> env ''DLQ_URL'' = Some []
           \<or> env ''rekognition_model_project_version_arn'' = None"
  shows "snd (analyse_lambda_handler env w event) = []
       \<and> (\<forall>st p f rs. fst (analyse_lambda_handler env w event) \<noteq> Inr (Report st p f rs))"
  using assms
  by (auto simp: analyse_lambda_handler_def environ_getitem_def split: option.splits)

text \<open>
  C3 fails on the code for the three document-store settings. Without the endpoint
  URL the handler still processes the batch: it calls the detector for the message,
  fails at the request to the document store, sends the message to the dead-letter
  queue and returns a report with status 200.
\<close>

theorem missing_endpoint_still_detects:
  "analyse_lambda_handler (example_env(''Nuxeo_Endpoint'' := None))
     (example_world ''RUNNING'' ''1'') \<lparr>Records = [example_message]\<rparr>
   = (Inr (Report ''200'' 0 1 []),
      [DetectCustomLabels ''arn:aws:rekognition:r:1:project/p/version/v1/17'' (JStr ''b1'')
         ''foo bar.jpg'',
       RequestsPost None nuxeo_headers (nuxeo_payload ''cat,dog'' (JStr ''doc-1''))
         (Some ''user'', Some ''secret'') 5,
       SendMessage ''https://sqs.example/dlq'' example_body])"
  by (simp add: analyse_eval)

section \<open>ensureRunning\<close>

text \<open>The definitions that evaluate the handler on the example inputs.\<close>

lemmas start_eval =
  start_lambda_handler_def start_get_environment_variables_def get_project_version_name_def
  describe_project_version_def start_project_version_def describe_status_def
  environ_getitem_def py_bind_def py_index_def dict_getitem_def example_env_def
  example_world_def Let_def

text \<open>
  C5, as the code has it. Let the settings be there, the version name be read from the
  ARN, and the describe call return the state \<open>status\<close>; the describe call is then the
  only call so far. If the state is RUNNING or STARTING, the handler returns that
  state as a string and issues no start request. Otherwise it issues exactly one start
  request, with \<open>MinInferenceUnits\<close> 1, as its next and last call; it then returns the
  response dict of that request, not a string, or raises what the request raised.
\<close>

theorem ensure_running:
  assumes "start_get_environment_variables env = Inr env_vars"
    and "get_project_version_name (project_version_arn env_vars) = Inr version_name"
    and "describe_project_version w [] (project_arn env_vars) version_name = (Inr status, tr)"
  shows "tr = [DescribeProjectVersions (project_arn env_vars) [version_name]]
       \<and> (if status = ''RUNNING'' \<or> status = ''STARTING''
          then start_lambda_handler env w = (Inr (ReturnedStr status), tr)
             \<and> filter is_StartProjectVersion (snd (start_lambda_handler env w)) = []
          else snd (start_lambda_handler env w)
                 = tr @ [StartProjectVersion (project_version_arn env_vars) 1]
             \<and> filter is_StartProjectVersion (snd (start_lambda_handler env w))
                 = [StartProjectVersion (project_version_arn env_vars) 1]
             \<and> fst (start_lambda_handler env w)
                 = map_sum id ReturnedDict
                     (start_project_version_api w
                        (tr @ [StartProjectVersion (project_version_arn env_vars) 1])))"
proof -
  have tr: "tr = [DescribeProjectVersions (project_arn env_vars) [version_name]]"
    using assms(3) by (auto simp: describe_project_version_def Let_def)
  show ?thesis
  proof (cases "status = ''RUNNING'' \<or> status = ''STARTING''")
    case True
    with assms tr show ?thesis
      by (auto simp: start_lambda_handler_def)
  next
    case False
    with assms tr show ?thesis
      by (cases "start_project_version_api w
                   (tr @ [StartProjectVersion (project_version_arn env_vars) 1])")
         (auto simp: start_lambda_handler_def start_project_version_def Let_def)
  qed
qed

theorem ensure_running_witness:
  "start_lambda_handler example_env (example_world ''RUNNING'' ''0'')
     = (Inr (ReturnedStr ''RUNNING''),
        [DescribeProjectVersions ''arn:aws:rekognition:r:1:project/p/17'' [''v1'']])
   \<and> filter is_StartProjectVersion
        (snd (start_lambda_handler example_env (example_world ''RUNNING'' ''0''))) = []"
proof -
  let ?w = "example_world ''RUNNING'' ''0''"
  let ?ev = "\<lparr>project_version_arn = ''arn:aws:rekognition:r:1:project/p/version/v1/17'',
              project_arn = ''arn:aws:rekognition:r:1:project/p/17''\<rparr>"
  have a: "start_get_environment_variables example_env = Inr ?ev"
    by (simp add: start_eval)
  have b: "get_project_version_name (project_version_arn ?ev) = Inr ''v1''"
    by (simp add: start_eval)
  have c: "describe_project_version ?w [] (project_arn ?ev) ''v1''
             = (Inr ''RUNNING'',
                [DescribeProjectVersions ''arn:aws:rekognition:r:1:project/p/17'' [''v1'']])"
    by (simp add: start_eval)
  from ensure_running [OF a b c] show ?thesis by simp
qed

text \<open>
  C5 as stated fails in its last part: with the model in state STOPPED the handler
  returns the response dict of the start request, which is not a string token.
\<close>

theorem ensure_running_counterexample:
  "start_lambda_handler example_env (example_world ''STOPPED'' ''0'')
     = (Inr (ReturnedDict \<lparr>start_Status = Some ''STARTING''\<rparr>),
        [DescribeProjectVersions ''arn:aws:rekognition:r:1:project/p/17'' [''v1''],
         StartProjectVersion ''arn:aws:rekognition:r:1:project/p/version/v1/17'' 1])
   \<and> \<not> is_ReturnedStr (ReturnedDict \<lparr>start_Status = Some ''STARTING''\<rparr>)
   \<and> fst (start_lambda_handler example_env (example_world ''STOPPED'' ''0''))
       \<noteq> Inr (ReturnedStr ''STARTING'')"
  by (simp add: start_eval)

section \<open>ensureStopped\<close>






end
